theory Spec2Isabelle
  imports Main
begin

section \<open>JavaScript values\<close>

text \<open>
  The client is TypeScript compiled to JavaScript; what it receives from the backend is
  parsed JSON, and the code tests those values with \<^verbatim>\<open>||\<close>, \<^verbatim>\<open>&&\<close> and \<^verbatim>\<open>!\<close>.
  \<open>JUndefined\<close> is the value of a property that is not there. Numbers are kept as
  integers: no claim depends on fractions, and \<open>NaN\<close> cannot come out of JSON.
\<close>

datatype json =
    JUndefined
  | JNull
  | JBool bool
  | JNum int
  | JStr string
  | JArr "json list"
  | JObj "(string \<times> json) list"

text \<open>What the code can throw: \<^verbatim>\<open>new Error(x)\<close> (kept with the value \<open>x\<close> it was built from; its
  message is the string form of \<open>x\<close>, which is \<open>s\<close> itself for \<open>JStr s\<close>), a \<^verbatim>\<open>TypeError\<close>
  of the runtime (property read on \<^verbatim>\<open>null\<close>, a rejected \<^verbatim>\<open>fetch\<close>), and the \<^verbatim>\<open>SyntaxError\<close>
  of \<^verbatim>\<open>JSON.parse\<close> and \<^verbatim>\<open>response.json()\<close>.\<close>

datatype exn = Error json | TypeError | SyntaxError

fun truthy :: "json \<Rightarrow> bool" where
  "truthy JUndefined = False"
| "truthy JNull = False"
| "truthy (JBool b) = b"
| "truthy (JNum n) = (n \<noteq> 0)"
| "truthy (JStr s) = (s \<noteq> [])"
| "truthy (JArr xs) = True"
| "truthy (JObj kvs) = True"

text \<open>\<^verbatim>\<open>a || b\<close> on values.\<close>

definition js_or :: "json \<Rightarrow> json \<Rightarrow> json" where
  "js_or a b = (if truthy a then a else b)"

text \<open>\<^verbatim>\<open>v.k\<close>: a \<^verbatim>\<open>TypeError\<close> on \<^verbatim>\<open>null\<close> and \<^verbatim>\<open>undefined\<close>, the field of an object,
  \<^verbatim>\<open>undefined\<close> where there is no such field. The code reads only \<^verbatim>\<open>data\<close>, \<^verbatim>\<open>error\<close> and
  \<^verbatim>\<open>id\<close>, which arrays, strings, numbers and booleans do not have.\<close>

fun get_prop :: "json \<Rightarrow> string \<Rightarrow> exn + json" where
  "get_prop JUndefined k = Inl TypeError"
| "get_prop JNull k = Inl TypeError"
| "get_prop (JObj kvs) k = Inr (case map_of kvs k of None \<Rightarrow> JUndefined | Some v \<Rightarrow> v)"
| "get_prop v k = Inr JUndefined"


section \<open>The API client\<close>

text \<open>
  \<^verbatim>\<open>services/api.ts\<close>. \<^verbatim>\<open>localStorage\<close> is a map from keys to strings; \<^verbatim>\<open>getItem\<close> gives
  \<^verbatim>\<open>null\<close> (here \<open>None\<close>) for a missing key. Every operation builds one request, awaits
  \<^verbatim>\<open>fetch\<close> and returns \<^verbatim>\<open>handleResponse(response)\<close>; the model has one function per
  operation for the request it builds, and \<open>api_result\<close> for what the call settles to.
  \<open>url\<close> is the part of the address after \<^verbatim>\<open>API_BASE_URL\<close>, and \<open>query\<close> the pairs
  appended to the \<^verbatim>\<open>URLSearchParams\<close> (none: no query string).
\<close>

type_synonym storage = "string \<rightharpoonup> string"

datatype http_method = GET | POST | PUT | DELETE

datatype form_value = FieldText string | FieldFile string

type_synonym form_data = "(string \<times> form_value) list"

text \<open>The parameter type \<^verbatim>\<open>FormData | any\<close> of create and update.\<close>

datatype payload = FormData form_data | Plain json

text \<open>A request body: none, the \<^verbatim>\<open>FormData\<close> object itself (sent as multipart by the
  browser), or the text \<^verbatim>\<open>JSON.stringify(j)\<close>.\<close>

datatype body = NoBody | FormBody form_data | JSONText json

record request =
  req_method :: http_method
  url :: string
  query :: "(string \<times> string) list"
  headers :: "(string \<times> string) list"
  body :: body

text \<open>Decimal digits of a number, as a template literal and \<^verbatim>\<open>toString()\<close> print them
  (for numbers below \<^verbatim>\<open>1e21\<close>: from there on JavaScript prints an exponent, which is not modelled).\<close>

definition digit :: "nat \<Rightarrow> char" where
  "digit d = ''0123456789'' ! (d mod 10)"

fun show_nat :: "nat \<Rightarrow> string" where
  "show_nat n = (if n < 10 then [digit n] else show_nat (n div 10) @ [digit (n mod 10)])"

declare show_nat.simps [simp del]

definition show_int :: "int \<Rightarrow> string" where
  "show_int i = (if i < 0 then ''-'' @ show_nat (nat (- i)) else show_nat (nat i))"

text \<open>The spread \<^verbatim>\<open>...(token && { Authorization: `Bearer ${token}` })\<close>: nothing for
  \<^verbatim>\<open>null\<close> and for the empty string.\<close>

definition bearer :: "string option \<Rightarrow> (string \<times> string) list" where
  "bearer token =
     (case token of
        None \<Rightarrow> []
      | Some t \<Rightarrow> if t \<noteq> [] then [(''Authorization'', ''Bearer '' @ t)] else [])"

definition getAuthHeaders :: "storage \<Rightarrow> (string \<times> string) list" where
  "getAuthHeaders ls =
     (let token = ls ''authToken''
      in [(''Content-Type'', ''application/json'')] @ bearer token)"

definition setAuthToken :: "storage \<Rightarrow> string \<Rightarrow> storage" where
  "setAuthToken ls token = ls(''authToken'' \<mapsto> token)"

definition clearAuthToken :: "storage \<Rightarrow> storage" where
  "clearAuthToken ls = ls(''authToken'' := None)"

text \<open>A response: its status and its body, \<open>None\<close> when the body is not JSON (then
  \<^verbatim>\<open>response.json()\<close> rejects). \<^verbatim>\<open>response.ok\<close> is a status from 200 to 299.\<close>

record response =
  status :: nat
  json_body :: "json option"

definition ok :: "response \<Rightarrow> bool" where
  "ok r = (200 \<le> status r \<and> status r \<le> 299)"

definition handleResponse :: "response \<Rightarrow> exn + json" where
  "handleResponse r =
     (if \<not> ok r then
        (let error = (case json_body r of
                        None \<Rightarrow> JObj [(''error'', JStr ''Network error'')]
                      | Some j \<Rightarrow> j)
         in case get_prop error ''error'' of
              Inl e \<Rightarrow> Inl e
            | Inr m \<Rightarrow> Inl (Error (js_or m (JStr (''HTTP '' @ show_nat (status r))))))
      else (case json_body r of None \<Rightarrow> Inl SyntaxError | Some j \<Rightarrow> Inr j))"

text \<open>\<^verbatim>\<open>const response = await fetch(...); return handleResponse(response)\<close>: a rejected
  \<^verbatim>\<open>fetch\<close> rejects the call.\<close>

definition api_result :: "exn + response \<Rightarrow> exn + json" where
  "api_result fetched = (case fetched of Inl e \<Rightarrow> Inl e | Inr r \<Rightarrow> handleResponse r)"

record params =
  page :: "int option"
  limit :: "int option"
  region :: "string option"
  search :: "string option"

text \<open>The four \<^verbatim>\<open>if (params?.x) queryParams.append(...)\<close> lines of every \<^verbatim>\<open>getAll\<close>.\<close>

definition queryParams :: "params option \<Rightarrow> (string \<times> string) list" where
  "queryParams ps =
     (case ps of
        None \<Rightarrow> []
      | Some p \<Rightarrow>
          (case page p of Some n \<Rightarrow> if n \<noteq> 0 then [(''page'', show_int n)] else [] | None \<Rightarrow> [])
          @ (case limit p of Some n \<Rightarrow> if n \<noteq> 0 then [(''limit'', show_int n)] else [] | None \<Rightarrow> [])
          @ (case region p of
               Some g \<Rightarrow> if g \<noteq> [] \<and> g \<noteq> ''All'' then [(''region'', g)] else []
             | None \<Rightarrow> [])
          @ (case search p of Some q \<Rightarrow> if q \<noteq> [] then [(''search'', q)] else [] | None \<Rightarrow> []))"

text \<open>The header object and body of the create and update of experiences and itineraries:
  \<^verbatim>\<open>isFormData = data instanceof FormData\<close>.\<close>

definition upload_headers :: "storage \<Rightarrow> payload \<Rightarrow> (string \<times> string) list" where
  "upload_headers ls data =
     (let token = ls ''authToken''
      in bearer token
         @ (case data of FormData fd \<Rightarrow> [] | Plain j \<Rightarrow> [(''Content-Type'', ''application/json'')]))"

definition upload_body :: "payload \<Rightarrow> body" where
  "upload_body data = (case data of FormData fd \<Rightarrow> FormBody fd | Plain j \<Rightarrow> JSONText j)"

subsection \<open>experiencesAPI\<close>

definition experiencesAPI_getAll :: "storage \<Rightarrow> params option \<Rightarrow> request" where
  "experiencesAPI_getAll ls ps =
     \<lparr>req_method = GET, url = ''/experiences'', query = queryParams ps, headers = [], body = NoBody\<rparr>"

definition experiencesAPI_getById :: "storage \<Rightarrow> string \<Rightarrow> request" where
  "experiencesAPI_getById ls ident =
     \<lparr>req_method = GET, url = ''/experiences/'' @ ident, query = [], headers = [], body = NoBody\<rparr>"

definition experiencesAPI_create :: "storage \<Rightarrow> payload \<Rightarrow> request" where
  "experiencesAPI_create ls data =
     \<lparr>req_method = POST, url = ''/experiences'', query = [],
      headers = upload_headers ls data, body = upload_body data\<rparr>"

definition experiencesAPI_update :: "storage \<Rightarrow> string \<Rightarrow> payload \<Rightarrow> request" where
  "experiencesAPI_update ls ident data =
     \<lparr>req_method = PUT, url = ''/experiences/'' @ ident, query = [],
      headers = upload_headers ls data, body = upload_body data\<rparr>"

definition experiencesAPI_delete :: "storage \<Rightarrow> string \<Rightarrow> request" where
  "experiencesAPI_delete ls ident =
     \<lparr>req_method = DELETE, url = ''/experiences/'' @ ident, query = [],
      headers = getAuthHeaders ls, body = NoBody\<rparr>"

subsection \<open>itinerariesAPI\<close>

definition itinerariesAPI_getAll :: "storage \<Rightarrow> params option \<Rightarrow> request" where
  "itinerariesAPI_getAll ls ps =
     \<lparr>req_method = GET, url = ''/itineraries'', query = queryParams ps, headers = [], body = NoBody\<rparr>"

definition itinerariesAPI_getById :: "storage \<Rightarrow> string \<Rightarrow> request" where
  "itinerariesAPI_getById ls ident =
     \<lparr>req_method = GET, url = ''/itineraries/'' @ ident, query = [], headers = [], body = NoBody\<rparr>"

definition itinerariesAPI_create :: "storage \<Rightarrow> payload \<Rightarrow> request" where
  "itinerariesAPI_create ls data =
     \<lparr>req_method = POST, url = ''/itineraries'', query = [],
      headers = upload_headers ls data, body = upload_body data\<rparr>"

definition itinerariesAPI_update :: "storage \<Rightarrow> string \<Rightarrow> payload \<Rightarrow> request" where
  "itinerariesAPI_update ls ident data =
     \<lparr>req_method = PUT, url = ''/itineraries/'' @ ident, query = [],
      headers = upload_headers ls data, body = upload_body data\<rparr>"

definition itinerariesAPI_delete :: "storage \<Rightarrow> string \<Rightarrow> request" where
  "itinerariesAPI_delete ls ident =
     \<lparr>req_method = DELETE, url = ''/itineraries/'' @ ident, query = [],
      headers = getAuthHeaders ls, body = NoBody\<rparr>"

subsection \<open>imagesAPI\<close>

text \<open>Create and update take a \<^verbatim>\<open>FormData\<close> only and set no content type.\<close>

definition imagesAPI_getAll :: "storage \<Rightarrow> params option \<Rightarrow> request" where
  "imagesAPI_getAll ls ps =
     \<lparr>req_method = GET, url = ''/images'', query = queryParams ps, headers = [], body = NoBody\<rparr>"

definition imagesAPI_getById :: "storage \<Rightarrow> string \<Rightarrow> request" where
  "imagesAPI_getById ls ident =
     \<lparr>req_method = GET, url = ''/images/'' @ ident, query = [], headers = [], body = NoBody\<rparr>"

definition imagesAPI_create :: "storage \<Rightarrow> form_data \<Rightarrow> request" where
  "imagesAPI_create ls formData =
     (let token = ls ''authToken''
      in \<lparr>req_method = POST, url = ''/images'', query = [],
          headers = bearer token, body = FormBody formData\<rparr>)"

definition imagesAPI_update :: "storage \<Rightarrow> string \<Rightarrow> form_data \<Rightarrow> request" where
  "imagesAPI_update ls ident formData =
     (let token = ls ''authToken''
      in \<lparr>req_method = PUT, url = ''/images/'' @ ident, query = [],
          headers = bearer token, body = FormBody formData\<rparr>)"

definition imagesAPI_delete :: "storage \<Rightarrow> string \<Rightarrow> request" where
  "imagesAPI_delete ls ident =
     \<lparr>req_method = DELETE, url = ''/images/'' @ ident, query = [],
      headers = getAuthHeaders ls, body = NoBody\<rparr>"

subsection \<open>updatesAPI\<close>

text \<open>No parameters for the list; create and update take \<^verbatim>\<open>any\<close> and always send
  \<^verbatim>\<open>JSON.stringify(data)\<close> under the headers of \<open>getAuthHeaders\<close>.\<close>

definition updatesAPI_getAll :: "storage \<Rightarrow> request" where
  "updatesAPI_getAll ls =
     \<lparr>req_method = GET, url = ''/updates'', query = [], headers = [], body = NoBody\<rparr>"

definition updatesAPI_getById :: "storage \<Rightarrow> string \<Rightarrow> request" where
  "updatesAPI_getById ls ident =
     \<lparr>req_method = GET, url = ''/updates/'' @ ident, query = [], headers = [], body = NoBody\<rparr>"

definition updatesAPI_create :: "storage \<Rightarrow> json \<Rightarrow> request" where
  "updatesAPI_create ls data =
     \<lparr>req_method = POST, url = ''/updates'', query = [],
      headers = getAuthHeaders ls, body = JSONText data\<rparr>"

definition updatesAPI_update :: "storage \<Rightarrow> string \<Rightarrow> json \<Rightarrow> request" where
  "updatesAPI_update ls ident data =
     \<lparr>req_method = PUT, url = ''/updates/'' @ ident, query = [],
      headers = getAuthHeaders ls, body = JSONText data\<rparr>"

definition updatesAPI_delete :: "storage \<Rightarrow> string \<Rightarrow> request" where
  "updatesAPI_delete ls ident =
     \<lparr>req_method = DELETE, url = ''/updates/'' @ ident, query = [],
      headers = getAuthHeaders ls, body = NoBody\<rparr>"

definition authAPI_logout :: "storage \<Rightarrow> storage" where
  "authAPI_logout ls = ls(''authToken'' := None)"

text \<open>How a request is encoded: as multipart (the body is the form, and no content type is
  set, so that the browser adds its own with the boundary), or as JSON (the body is the
  JSON text, under the JSON content type).\<close>

definition multipart_encoded :: "request \<Rightarrow> form_data \<Rightarrow> bool" where
  "multipart_encoded rq fd =
     (body rq = FormBody fd \<and> map_of (headers rq) ''Content-Type'' = None)"

definition json_encoded :: "request \<Rightarrow> json \<Rightarrow> bool" where
  "json_encoded rq j =
     (body rq = JSONText j \<and> map_of (headers rq) ''Content-Type'' = Some ''application/json'')"

definition authorization :: "request \<Rightarrow> string option" where
  "authorization rq = map_of (headers rq) ''Authorization''"


section \<open>ImageWithFallback\<close>

text \<open>
  \<^verbatim>\<open>src/components/figma/ImageWithFallback.tsx\<close>. The props are fixed for a mounted
  component; \<open>fallbackSrc\<close> is optional and defaults to a placeholder path. The state is
  the two \<^verbatim>\<open>useState\<close> cells. The \<^verbatim>\<open>onError\<close> and \<^verbatim>\<open>onLoad\<close> callbacks of the parent are
  called after the state update and cannot reach this state.
\<close>

record iwf_props =
  src :: string
  fallbackSrc_opt :: "string option"

definition fallbackSrc :: "iwf_props \<Rightarrow> string" where
  "fallbackSrc p = (case fallbackSrc_opt p of None \<Rightarrow> ''/api/placeholder/400/300'' | Some f \<Rightarrow> f)"

record iwf_state =
  imgSrc :: string
  hasError :: bool

definition iwf_init :: "iwf_props \<Rightarrow> iwf_state" where
  "iwf_init p = \<lparr>imgSrc = src p, hasError = False\<rparr>"

definition handleError :: "iwf_props \<Rightarrow> iwf_state \<Rightarrow> iwf_state" where
  "handleError p st =
     (if \<not> hasError st \<and> fallbackSrc p \<noteq> [] \<and> imgSrc st \<noteq> fallbackSrc p
      then st\<lparr>hasError := True, imgSrc := fallbackSrc p\<rparr>
      else st)"

definition handleLoad :: "iwf_state \<Rightarrow> iwf_state" where
  "handleLoad st = st\<lparr>hasError := False\<rparr>"

datatype img_event = LoadError | Loaded

fun iwf_step :: "iwf_props \<Rightarrow> iwf_state \<Rightarrow> img_event \<Rightarrow> iwf_state" where
  "iwf_step p st LoadError = handleError p st"
| "iwf_step p st Loaded = handleLoad st"

text \<open>The sources displayed after each event of a sequence, in order.\<close>

fun displayed :: "iwf_props \<Rightarrow> iwf_state \<Rightarrow> img_event list \<Rightarrow> string list" where
  "displayed p st [] = []"
| "displayed p st (e # es) = imgSrc (iwf_step p st e) # displayed p (iwf_step p st e) es"

text \<open>How often a sequence of displayed sources changes from one entry to the next.\<close>

fun switches :: "string list \<Rightarrow> nat" where
  "switches (a # b # xs) = (if a = b then 0 else 1) + switches (b # xs)"
| "switches xs = 0"


section \<open>The shared snapshot and the managers\<close>

text \<open>
  \<^verbatim>\<open>AppData\<close> of \<^verbatim>\<open>App.tsx\<close>. The fields are typed as arrays, but they hold whatever the
  responses contained, so they are values here. A manager component gets the snapshot as
  the prop \<^verbatim>\<open>data\<close> and hands a new one to \<^verbatim>\<open>onUpdateData\<close>, which is \<^verbatim>\<open>setData\<close> of the
  App; its record holds the snapshot, its own copy of its collection, its loading flag and
  the toasts it has shown. The form state of a manager (dialog, edited item, selected
  file, form fields), which the functions below do not touch, is left out, and so is
  \<^verbatim>\<open>console.error\<close>.

  An \<^verbatim>\<open>async\<close> function gives back \<open>(thrown, state)\<close>: \<open>thrown = None\<close> when its promise
  resolves, \<open>Some e\<close> when it rejects with \<open>e\<close>. The settled value of each API call it
  awaits is a parameter (\<open>Inl\<close>: rejected).
\<close>

record AppData =
  experiences :: json
  itineraries :: json
  images :: json
  updates :: json

datatype toast = ToastError string | ToastSuccess string | ToastWarning string

subsection \<open>ExperienceManager\<close>

record experience_manager =
  em_data :: AppData
  em_experiences :: json
  em_isLoading :: bool
  em_toasts :: "toast list"

text \<open>\<^verbatim>\<open>useState(data.experiences || [])\<close> and \<^verbatim>\<open>useState(false)\<close>.\<close>

definition ExperienceManager :: "AppData \<Rightarrow> experience_manager" where
  "ExperienceManager d =
     \<lparr>em_data = d, em_experiences = js_or (experiences d) (JArr []),
      em_isLoading = False, em_toasts = []\<rparr>"

text \<open>\<^verbatim>\<open>fetchExperiences\<close> up to its \<^verbatim>\<open>await\<close>, where the list request has been issued, and
  from there on, with the settled value of \<^verbatim>\<open>experiencesAPI.getAll()\<close>.\<close>

definition fetchExperiences_begin :: "experience_manager \<Rightarrow> experience_manager" where
  "fetchExperiences_begin st = st\<lparr>em_isLoading := True\<rparr>"

definition fetchExperiences_catch :: "experience_manager \<Rightarrow> experience_manager" where
  "fetchExperiences_catch st =
     st\<lparr>em_toasts := em_toasts st @ [ToastError ''Failed to load experiences'']\<rparr>"

definition fetchExperiences_resume :: "experience_manager \<Rightarrow> exn + json \<Rightarrow> experience_manager" where
  "fetchExperiences_resume st settled =
     (let st' =
        (case settled of
           Inl e \<Rightarrow> fetchExperiences_catch st
         | Inr response \<Rightarrow>
             (case get_prop response ''data'' of
                Inl e \<Rightarrow> fetchExperiences_catch st
              | Inr d \<Rightarrow>
                  (let experiencesData = js_or d response
                   in st\<lparr>em_experiences := experiencesData,
                         em_data := (em_data st)\<lparr>experiences := experiencesData\<rparr>\<rparr>)))
      in st'\<lparr>em_isLoading := False\<rparr>)"

definition fetchExperiences :: "experience_manager \<Rightarrow> exn + json \<Rightarrow> exn option \<times> experience_manager" where
  "fetchExperiences st settled = (None, fetchExperiences_resume (fetchExperiences_begin st) settled)"

text \<open>\<^verbatim>\<open>handleDeleteExperience(id)\<close>: the answer of \<^verbatim>\<open>window.confirm\<close>, what
  \<^verbatim>\<open>experiencesAPI.delete(id)\<close> settles to, and what the list request of the refresh settles
  to (read only when the refresh is reached).\<close>

definition handleDeleteExperience ::
  "experience_manager \<Rightarrow> bool \<Rightarrow> exn + json \<Rightarrow> exn + json \<Rightarrow> exn option \<times> experience_manager" where
  "handleDeleteExperience st confirmed deleted listed =
     (if confirmed then
        (case deleted of
           Inl e \<Rightarrow>
             (None, st\<lparr>em_toasts := em_toasts st @ [ToastError ''Failed to delete experience'']\<rparr>)
         | Inr v \<Rightarrow>
             (case fetchExperiences st listed of
                (Some e, st') \<Rightarrow>
                  (None, st'\<lparr>em_toasts := em_toasts st' @ [ToastError ''Failed to delete experience'']\<rparr>)
              | (None, st') \<Rightarrow>
                  (None, st'\<lparr>em_toasts := em_toasts st' @ [ToastSuccess ''Experience deleted successfully'']\<rparr>)))
      else (None, st))"

subsection \<open>ItineraryManager\<close>

record itinerary_manager =
  itm_data :: AppData
  itm_itineraries :: json
  itm_isLoading :: bool
  itm_toasts :: "toast list"

definition ItineraryManager :: "AppData \<Rightarrow> itinerary_manager" where
  "ItineraryManager d =
     \<lparr>itm_data = d, itm_itineraries = js_or (itineraries d) (JArr []),
      itm_isLoading = False, itm_toasts = []\<rparr>"

definition fetchItineraries_begin :: "itinerary_manager \<Rightarrow> itinerary_manager" where
  "fetchItineraries_begin st = st\<lparr>itm_isLoading := True\<rparr>"

definition fetchItineraries_catch :: "itinerary_manager \<Rightarrow> itinerary_manager" where
  "fetchItineraries_catch st =
     st\<lparr>itm_toasts := itm_toasts st @ [ToastError ''Failed to load itineraries'']\<rparr>"

definition fetchItineraries_resume :: "itinerary_manager \<Rightarrow> exn + json \<Rightarrow> itinerary_manager" where
  "fetchItineraries_resume st settled =
     (let st' =
        (case settled of
           Inl e \<Rightarrow> fetchItineraries_catch st
         | Inr response \<Rightarrow>
             (case get_prop response ''data'' of
                Inl e \<Rightarrow> fetchItineraries_catch st
              | Inr d \<Rightarrow>
                  (let itinerariesData = js_or d response
                   in st\<lparr>itm_itineraries := itinerariesData,
                         itm_data := (itm_data st)\<lparr>itineraries := itinerariesData\<rparr>\<rparr>)))
      in st'\<lparr>itm_isLoading := False\<rparr>)"

definition fetchItineraries :: "itinerary_manager \<Rightarrow> exn + json \<Rightarrow> exn option \<times> itinerary_manager" where
  "fetchItineraries st settled = (None, fetchItineraries_resume (fetchItineraries_begin st) settled)"

text \<open>\<^verbatim>\<open>handleDelete(id)\<close> of the ItineraryManager.\<close>

definition handleDelete_itinerary ::
  "itinerary_manager \<Rightarrow> bool \<Rightarrow> exn + json \<Rightarrow> exn + json \<Rightarrow> exn option \<times> itinerary_manager" where
  "handleDelete_itinerary st confirmed deleted listed =
     (if confirmed then
        (case deleted of
           Inl e \<Rightarrow>
             (None, st\<lparr>itm_toasts := itm_toasts st @ [ToastError ''Failed to delete itinerary'']\<rparr>)
         | Inr v \<Rightarrow>
             (case fetchItineraries st listed of
                (Some e, st') \<Rightarrow>
                  (None, st'\<lparr>itm_toasts := itm_toasts st' @ [ToastError ''Failed to delete itinerary'']\<rparr>)
              | (None, st') \<Rightarrow>
                  (None, st'\<lparr>itm_toasts := itm_toasts st' @ [ToastSuccess ''Itinerary deleted successfully'']\<rparr>)))
      else (None, st))"

subsection \<open>ImageManager\<close>

record image_manager =
  im_data :: AppData
  im_images :: json
  im_isLoading :: bool
  im_toasts :: "toast list"

definition ImageManager :: "AppData \<Rightarrow> image_manager" where
  "ImageManager d =
     \<lparr>im_data = d, im_images = js_or (images d) (JArr []),
      im_isLoading = False, im_toasts = []\<rparr>"

definition fetchImages_begin :: "image_manager \<Rightarrow> image_manager" where
  "fetchImages_begin st = st\<lparr>im_isLoading := True\<rparr>"

text \<open>The \<^verbatim>\<open>catch\<close> of \<^verbatim>\<open>fetchImages\<close> also calls \<^verbatim>\<open>setImages([])\<close>.\<close>

definition fetchImages_catch :: "image_manager \<Rightarrow> image_manager" where
  "fetchImages_catch st =
     st\<lparr>im_toasts := im_toasts st @ [ToastError ''Failed to load images''],
        im_images := JArr []\<rparr>"

definition fetchImages_resume :: "image_manager \<Rightarrow> exn + json \<Rightarrow> image_manager" where
  "fetchImages_resume st settled =
     (let st' =
        (case settled of
           Inl e \<Rightarrow> fetchImages_catch st
         | Inr response \<Rightarrow>
             (case get_prop response ''data'' of
                Inl e \<Rightarrow> fetchImages_catch st
              | Inr d \<Rightarrow>
                  (let imageData = js_or (js_or d response) (JArr [])
                   in st\<lparr>im_images := imageData,
                         im_data := (im_data st)\<lparr>images := imageData\<rparr>\<rparr>)))
      in st'\<lparr>im_isLoading := False\<rparr>)"

definition fetchImages :: "image_manager \<Rightarrow> exn + json \<Rightarrow> exn option \<times> image_manager" where
  "fetchImages st settled = (None, fetchImages_resume (fetchImages_begin st) settled)"

text \<open>\<^verbatim>\<open>images.filter(img => img.id !== id)\<close>, left to right: reading \<^verbatim>\<open>id\<close> of a \<^verbatim>\<open>null\<close> item
  throws, and so does \<^verbatim>\<open>filter\<close> on a value that is not an array.\<close>

fun without_id :: "json list \<Rightarrow> string \<Rightarrow> exn + json list" where
  "without_id [] ident = Inr []"
| "without_id (img # imgs) ident =
     (case get_prop img ''id'' of
        Inl e \<Rightarrow> Inl e
      | Inr v \<Rightarrow>
          (case without_id imgs ident of
             Inl e \<Rightarrow> Inl e
           | Inr rest \<Rightarrow> Inr (if v \<noteq> JStr ident then img # rest else rest)))"

fun js_filter_id :: "json \<Rightarrow> string \<Rightarrow> exn + json" where
  "js_filter_id (JArr imgs) ident =
     (case without_id imgs ident of Inl e \<Rightarrow> Inl e | Inr rest \<Rightarrow> Inr (JArr rest))"
| "js_filter_id v ident = Inl TypeError"

text \<open>\<^verbatim>\<open>handleDelete(id)\<close> of the ImageManager: no list request, the cached array is
  filtered.\<close>

definition handleDelete_image ::
  "image_manager \<Rightarrow> string \<Rightarrow> bool \<Rightarrow> exn + json \<Rightarrow> exn option \<times> image_manager" where
  "handleDelete_image st ident confirmed deleted =
     (if confirmed then
        (let st1 = st\<lparr>im_isLoading := True\<rparr>;
             failed = st1\<lparr>im_toasts := im_toasts st1 @ [ToastError ''Failed to delete image'']\<rparr>;
             st2 =
               (case deleted of
                  Inl e \<Rightarrow> failed
                | Inr v \<Rightarrow>
                    (case js_filter_id (im_images st1) ident of
                       Inl e \<Rightarrow> failed
                     | Inr newImages \<Rightarrow>
                         st1\<lparr>im_images := newImages,
                             im_data := (im_data st1)\<lparr>images := newImages\<rparr>,
                             im_toasts := im_toasts st1 @ [ToastSuccess ''Image deleted successfully'']\<rparr>))
         in (None, st2\<lparr>im_isLoading := False\<rparr>))
      else (None, st))"


section \<open>The App\<close>

text \<open>
  The state of \<^verbatim>\<open>App\<close>: its four \<^verbatim>\<open>useState\<close> cells, the browser's \<^verbatim>\<open>localStorage\<close> and the
  toasts shown. \<^verbatim>\<open>user\<close> is \<^verbatim>\<open>null\<close> or what \<^verbatim>\<open>JSON.parse\<close> or the login gave.
\<close>

record app_state =
  user :: json
  data :: AppData
  isLoading :: bool
  connectionError :: bool
  localStorage :: storage
  toasts :: "toast list"

definition empty_data :: AppData where
  "empty_data = \<lparr>experiences = JArr [], itineraries = JArr [], images = JArr [], updates = JArr []\<rparr>"

definition App :: "storage \<Rightarrow> app_state" where
  "App ls =
     \<lparr>user = JNull, data = empty_data, isLoading = True, connectionError = False,
      localStorage = ls, toasts = []\<rparr>"

text \<open>\<^verbatim>\<open>getAll().catch(err => { ...; return { data: [] } })\<close>.\<close>

definition caught :: "exn + json \<Rightarrow> json" where
  "caught settled = (case settled of Inl err \<Rightarrow> JObj [(''data'', JArr [])] | Inr v \<Rightarrow> v)"

text \<open>\<^verbatim>\<open>res.data || []\<close>.\<close>

definition data_or_empty :: "json \<Rightarrow> exn + json" where
  "data_or_empty res = (case get_prop res ''data'' of Inl e \<Rightarrow> Inl e | Inr d \<Rightarrow> Inr (js_or d (JArr [])))"

text \<open>The object literal passed to \<^verbatim>\<open>setData\<close> in the \<^verbatim>\<open>try\<close> block, its four fields
  evaluated in order.\<close>

definition fetched_data :: "json \<Rightarrow> json \<Rightarrow> json \<Rightarrow> json \<Rightarrow> exn + AppData" where
  "fetched_data experiencesRes itinerariesRes imagesRes updatesRes =
     (case data_or_empty experiencesRes of
        Inl e \<Rightarrow> Inl e
      | Inr ex \<Rightarrow>
     (case data_or_empty itinerariesRes of
        Inl e \<Rightarrow> Inl e
      | Inr it \<Rightarrow>
     (case data_or_empty imagesRes of
        Inl e \<Rightarrow> Inl e
      | Inr im \<Rightarrow>
     (case data_or_empty updatesRes of
        Inl e \<Rightarrow> Inl e
      | Inr up \<Rightarrow>
          Inr \<lparr>experiences = ex, itineraries = it, images = im, updates = up\<rparr>))))"

text \<open>\<^verbatim>\<open>fetchAllData\<close>, with the settled values of the four \<^verbatim>\<open>getAll()\<close> calls.\<close>

definition fetchAllData ::
  "app_state \<Rightarrow> exn + json \<Rightarrow> exn + json \<Rightarrow> exn + json \<Rightarrow> exn + json \<Rightarrow> exn option \<times> app_state" where
  "fetchAllData st experiencesSettled itinerariesSettled imagesSettled updatesSettled =
     (let st1 = st\<lparr>isLoading := True, connectionError := False\<rparr>;
          st2 =
            (case fetched_data (caught experiencesSettled) (caught itinerariesSettled)
                    (caught imagesSettled) (caught updatesSettled) of
               Inr d \<Rightarrow> st1\<lparr>data := d\<rparr>
             | Inl error \<Rightarrow>
                 st1\<lparr>connectionError := True,
                     toasts := toasts st1 @
                       [ToastError ''Unable to connect to server. Please check your internet connection.''],
                     data := empty_data\<rparr>)
      in (None, st2\<lparr>isLoading := False\<rparr>))"

text \<open>\<^verbatim>\<open>handleLogout\<close>. Storage that cannot be reached (the \<^verbatim>\<open>catch\<close> with the page reload)
  is not modelled: \<open>storage\<close> is always there.\<close>

definition handleLogout :: "app_state \<Rightarrow> app_state" where
  "handleLogout st =
     st\<lparr>localStorage :=
          authAPI_logout ((localStorage st)(''user'' := None, ''token'' := None, ''authToken'' := None)),
        user := JNull,
        data := empty_data,
        connectionError := False,
        toasts := toasts st @ [ToastSuccess ''Logged out successfully'']\<rparr>"

text \<open>The effect run once at startup. \<open>JSON_parse\<close> is the platform's parser, \<open>None\<close>
  where it throws its \<^verbatim>\<open>SyntaxError\<close>; \<^verbatim>\<open>token && storedUser\<close> holds when both keys are
  there with non-empty strings. \<^verbatim>\<open>fetchAllData()\<close> is started and not awaited.\<close>

definition App_useEffect ::
  "(string \<Rightarrow> json option) \<Rightarrow> app_state \<Rightarrow>
   exn + json \<Rightarrow> exn + json \<Rightarrow> exn + json \<Rightarrow> exn + json \<Rightarrow> exn option \<times> app_state" where
  "App_useEffect JSON_parse st experiencesSettled itinerariesSettled imagesSettled updatesSettled =
     (let token = localStorage st ''token'';
          storedUser = localStorage st ''user''
      in case (token, storedUser) of
           (Some t, Some u) \<Rightarrow>
             (if t \<noteq> [] \<and> u \<noteq> [] then
                (let st1 = st\<lparr>localStorage := setAuthToken (localStorage st) t\<rparr>
                 in case JSON_parse u of
                      None \<Rightarrow> (None, handleLogout st1)
                    | Some parsed \<Rightarrow>
                        (None, snd (fetchAllData (st1\<lparr>user := parsed\<rparr>) experiencesSettled
                                 itinerariesSettled imagesSettled updatesSettled)))
              else (None, st\<lparr>isLoading := False\<rparr>))
         | _ \<Rightarrow> (None, st\<lparr>isLoading := False\<rparr>))"

text \<open>What \<^verbatim>\<open>App\<close> renders: the login page while there is no user, whatever the other
  flags say.\<close>

datatype screen = LoginScreen | LoadingScreen | ConnectionErrorScreen | Dashboard

definition render :: "app_state \<Rightarrow> screen" where
  "render st =
     (if \<not> truthy (user st) then LoginScreen
      else if isLoading st then LoadingScreen
      else if connectionError st then ConnectionErrorScreen
      else Dashboard)"


text \<open>For stating what the bulk fetch keeps: a \<^verbatim>\<open>getAll()\<close> call that rejects (\<open>Inl\<close>) or
  resolves with the envelope \<^verbatim>\<open>{data: [...]}\<close> around a list of items (\<open>Inr\<close>), and the
  array a collection is expected to hold then.\<close>

definition enveloped :: "exn + json list \<Rightarrow> exn + json" where
  "enveloped listing = (case listing of Inl e \<Rightarrow> Inl e | Inr items \<Rightarrow> Inr (JObj [(''data'', JArr items)]))"

definition held :: "exn + json list \<Rightarrow> json" where
  "held listing = (case listing of Inl e \<Rightarrow> JArr [] | Inr items \<Rightarrow> JArr items)"


section \<open>Refreshes in flight\<close>

text \<open>
  A refresh is not atomic: between its \<^verbatim>\<open>await\<close> and the arrival of the response any
  other handler can run. A component together with the list requests it has issued and
  that have not settled yet; \<open>Call\<close> is a call of the component's fetch function up to
  its \<^verbatim>\<open>await\<close>, \<open>Settle v\<close> the arrival of the oldest outstanding answer, resuming the
  call that waits for it. (All the requests of one component are the same request, so
  which of them an answer belongs to makes no difference to the component.)
\<close>

datatype refresh_event = Call | Settle "exn + json"

fun refresh_step ::
  "('c \<Rightarrow> 'c) \<Rightarrow> ('c \<Rightarrow> exn + json \<Rightarrow> 'c) \<Rightarrow> request \<Rightarrow> 'c \<times> request list \<Rightarrow> refresh_event
   \<Rightarrow> 'c \<times> request list" where
  "refresh_step begin resume rq (c, outstanding) Call = (begin c, outstanding @ [rq])"
| "refresh_step begin resume rq (c, []) (Settle v) = (c, [])"
| "refresh_step begin resume rq (c, q # outstanding) (Settle v) = (resume c v, outstanding)"

fun refresh_run ::
  "('c \<Rightarrow> 'c) \<Rightarrow> ('c \<Rightarrow> exn + json \<Rightarrow> 'c) \<Rightarrow> request \<Rightarrow> 'c \<times> request list \<Rightarrow> refresh_event list
   \<Rightarrow> 'c \<times> request list" where
  "refresh_run begin resume rq w [] = w"
| "refresh_run begin resume rq w (e # es) =
     refresh_run begin resume rq (refresh_step begin resume rq w e) es"

definition experiences_run ::
  "storage \<Rightarrow> experience_manager \<Rightarrow> refresh_event list \<Rightarrow> experience_manager \<times> request list" where
  "experiences_run ls st es =
     refresh_run fetchExperiences_begin fetchExperiences_resume (experiencesAPI_getAll ls None) (st, []) es"

definition itineraries_run ::
  "storage \<Rightarrow> itinerary_manager \<Rightarrow> refresh_event list \<Rightarrow> itinerary_manager \<times> request list" where
  "itineraries_run ls st es =
     refresh_run fetchItineraries_begin fetchItineraries_resume (itinerariesAPI_getAll ls None) (st, []) es"

definition images_run ::
  "storage \<Rightarrow> image_manager \<Rightarrow> refresh_event list \<Rightarrow> image_manager \<times> request list" where
  "images_run ls st es =
     refresh_run fetchImages_begin fetchImages_resume (imagesAPI_getAll ls None) (st, []) es"


section \<open>Properties of ImageWithFallback\<close>

lemma displayed_at_fallback:
  "imgSrc st = fallbackSrc p \<Longrightarrow> switches (imgSrc st # displayed p st es) = 0"
proof (induction es arbitrary: st)
  case Nil
  show ?case by simp
next
  case (Cons e es)
  have same: "imgSrc (iwf_step p st e) = fallbackSrc p"
    using Cons.prems by (cases e) (simp_all add: handleError_def handleLoad_def)
  from Cons.IH [OF same] same Cons.prems show ?case by simp
qed

lemma displayed_switches:
  "switches (imgSrc st # displayed p st es) \<le> 1"
proof (induction es arbitrary: st)
  case Nil
  show ?case by simp
next
  case (Cons e es)
  show ?case
  proof (cases "imgSrc (iwf_step p st e) = imgSrc st")
    case True
    with Cons.IH [of "iwf_step p st e"] show ?thesis by simp
  next
    case False
    then have fb: "imgSrc (iwf_step p st e) = fallbackSrc p"
      by (cases e) (simp_all add: handleError_def handleLoad_def split: if_splits)
    from displayed_at_fallback [OF fb] False show ?thesis by simp
  qed
qed

lemma displayed_values:
  "set (displayed p st es) \<subseteq> {imgSrc st, fallbackSrc p}"
proof (induction es arbitrary: st)
  case Nil
  show ?case by simp
next
  case (Cons e es)
  have "imgSrc (iwf_step p st e) \<in> {imgSrc st, fallbackSrc p}"
    by (cases e) (simp_all add: handleError_def handleLoad_def)
  with Cons.IH [of "iwf_step p st e"] show ?case by auto
qed

text \<open>
  C10. Over any sequence of load-error events (and load events between them) the
  displayed source changes at most once; every source displayed is the original \<open>src\<close>
  or \<open>fallbackSrc\<close>; and an error event in a state that already displays \<open>fallbackSrc\<close>
  leaves the displayed source as it is, whatever the error flag says.
\<close>

theorem C10_fallback_switches_at_most_once:
  "switches (imgSrc (iwf_init p) # displayed p (iwf_init p) es) \<le> 1
   \<and> set (displayed p (iwf_init p) es) \<subseteq> {src p, fallbackSrc p}
   \<and> imgSrc (handleError p \<lparr>imgSrc = fallbackSrc p, hasError = h\<rparr>) = fallbackSrc p"
proof -
  have "set (displayed p (iwf_init p) es) \<subseteq> {imgSrc (iwf_init p), fallbackSrc p}"
    by (rule displayed_values)
  then have "set (displayed p (iwf_init p) es) \<subseteq> {src p, fallbackSrc p}"
    by (simp add: iwf_init_def)
  moreover have "imgSrc (handleError p \<lparr>imgSrc = fallbackSrc p, hasError = h\<rparr>) = fallbackSrc p"
    by (simp add: handleError_def)
  ultimately show ?thesis
    using displayed_switches [of "iwf_init p" p es] by simp
qed

theorem C10_fallback_switches_at_most_once_witness:
  "switches (''a.png'' # displayed \<lparr>src = ''a.png'', fallbackSrc_opt = Some ''b.png''\<rparr>
       (iwf_init \<lparr>src = ''a.png'', fallbackSrc_opt = Some ''b.png''\<rparr>)
       [LoadError, LoadError, Loaded, LoadError]) = 1
   \<and> displayed \<lparr>src = ''a.png'', fallbackSrc_opt = Some ''b.png''\<rparr>
       (iwf_init \<lparr>src = ''a.png'', fallbackSrc_opt = Some ''b.png''\<rparr>)
       [LoadError, LoadError, Loaded, LoadError] = [''b.png'', ''b.png'', ''b.png'', ''b.png'']"
  using C10_fallback_switches_at_most_once
    [of "\<lparr>src = ''a.png'', fallbackSrc_opt = Some ''b.png''\<rparr>"
        "[LoadError, LoadError, Loaded, LoadError]" False]
  by (simp add: iwf_init_def handleError_def handleLoad_def fallbackSrc_def)

section \<open>Properties of the API client\<close>

text \<open>
  The list and get operations send no headers at all, so with a token in storage their
  requests still carry no authorization (against C5 as it is worded).
\<close>

theorem C5_list_and_get_unauthenticated:
  "[''authToken'' \<mapsto> ''t1''] ''authToken'' = Some ''t1''
   \<and> authorization (experiencesAPI_getAll [''authToken'' \<mapsto> ''t1''] None) = None
   \<and> authorization (experiencesAPI_getById [''authToken'' \<mapsto> ''t1''] ''7'') = None"
  by (simp add: authorization_def experiencesAPI_getAll_def experiencesAPI_getById_def)

text \<open>
  C5, amended. When storage holds a non-empty token under \<^verbatim>\<open>authToken\<close>, every create,
  update and delete request of the four collections carries the header
  \<^verbatim>\<open>Authorization: Bearer <token>\<close>; every list and get request carries no header.
\<close>

theorem C5_mutations_carry_bearer:
  assumes "ls ''authToken'' = Some t" and "t \<noteq> []"
  shows "authorization (experiencesAPI_create ls d) = Some (''Bearer '' @ t)
    \<and> authorization (experiencesAPI_update ls i d) = Some (''Bearer '' @ t)
    \<and> authorization (experiencesAPI_delete ls i) = Some (''Bearer '' @ t)
    \<and> authorization (itinerariesAPI_create ls d) = Some (''Bearer '' @ t)
    \<and> authorization (itinerariesAPI_update ls i d) = Some (''Bearer '' @ t)
    \<and> authorization (itinerariesAPI_delete ls i) = Some (''Bearer '' @ t)
    \<and> authorization (imagesAPI_create ls fd) = Some (''Bearer '' @ t)
    \<and> authorization (imagesAPI_update ls i fd) = Some (''Bearer '' @ t)
    \<and> authorization (imagesAPI_delete ls i) = Some (''Bearer '' @ t)
    \<and> authorization (updatesAPI_create ls j) = Some (''Bearer '' @ t)
    \<and> authorization (updatesAPI_update ls i j) = Some (''Bearer '' @ t)
    \<and> authorization (updatesAPI_delete ls i) = Some (''Bearer '' @ t)
    \<and> headers (experiencesAPI_getAll ls ps) = [] \<and> headers (experiencesAPI_getById ls i) = []
    \<and> headers (itinerariesAPI_getAll ls ps) = [] \<and> headers (itinerariesAPI_getById ls i) = []
    \<and> headers (imagesAPI_getAll ls ps) = [] \<and> headers (imagesAPI_getById ls i) = []
    \<and> headers (updatesAPI_getAll ls) = [] \<and> headers (updatesAPI_getById ls i) = []"
proof -
  have h: "map_of (getAuthHeaders ls) ''Authorization'' = Some (''Bearer '' @ t)"
      "\<And>d. map_of (upload_headers ls d) ''Authorization'' = Some (''Bearer '' @ t)"
      "map_of (bearer (ls ''authToken'')) ''Authorization'' = Some (''Bearer '' @ t)"
    using assms by (simp_all add: getAuthHeaders_def upload_headers_def bearer_def)
  have ex: "authorization (experiencesAPI_create ls d) = Some (''Bearer '' @ t)"
      "authorization (experiencesAPI_update ls i d) = Some (''Bearer '' @ t)"
      "authorization (experiencesAPI_delete ls i) = Some (''Bearer '' @ t)"
    by (simp_all add: authorization_def experiencesAPI_create_def experiencesAPI_update_def
        experiencesAPI_delete_def h)
  have it: "authorization (itinerariesAPI_create ls d) = Some (''Bearer '' @ t)"
      "authorization (itinerariesAPI_update ls i d) = Some (''Bearer '' @ t)"
      "authorization (itinerariesAPI_delete ls i) = Some (''Bearer '' @ t)"
    by (simp_all add: authorization_def itinerariesAPI_create_def itinerariesAPI_update_def
        itinerariesAPI_delete_def h)
  have im: "authorization (imagesAPI_create ls fd) = Some (''Bearer '' @ t)"
      "authorization (imagesAPI_update ls i fd) = Some (''Bearer '' @ t)"
      "authorization (imagesAPI_delete ls i) = Some (''Bearer '' @ t)"
    by (simp_all add: authorization_def imagesAPI_create_def imagesAPI_update_def
        imagesAPI_delete_def h)
  have up: "authorization (updatesAPI_create ls j) = Some (''Bearer '' @ t)"
      "authorization (updatesAPI_update ls i j) = Some (''Bearer '' @ t)"
      "authorization (updatesAPI_delete ls i) = Some (''Bearer '' @ t)"
    by (simp_all add: authorization_def updatesAPI_create_def updatesAPI_update_def
        updatesAPI_delete_def h)
  have reads: "headers (experiencesAPI_getAll ls ps) = []" "headers (experiencesAPI_getById ls i) = []"
      "headers (itinerariesAPI_getAll ls ps) = []" "headers (itinerariesAPI_getById ls i) = []"
      "headers (imagesAPI_getAll ls ps) = []" "headers (imagesAPI_getById ls i) = []"
      "headers (updatesAPI_getAll ls) = []" "headers (updatesAPI_getById ls i) = []"
    by (simp_all add: experiencesAPI_getAll_def experiencesAPI_getById_def
        itinerariesAPI_getAll_def itinerariesAPI_getById_def imagesAPI_getAll_def
        imagesAPI_getById_def updatesAPI_getAll_def updatesAPI_getById_def)
  from ex it im up reads show ?thesis by simp
qed

theorem C5_mutations_carry_bearer_witness:
  "authorization (experiencesAPI_delete [''authToken'' \<mapsto> ''t1''] ''7'') = Some ''Bearer t1''
   \<and> authorization (imagesAPI_create [''authToken'' \<mapsto> ''t1''] []) = Some ''Bearer t1''
   \<and> authorization (updatesAPI_create [''authToken'' \<mapsto> ''t1''] (JObj [])) = Some ''Bearer t1''"
  using C5_mutations_carry_bearer
    [of "[''authToken'' \<mapsto> ''t1'']" "''t1''" "Plain JNull" "''7''" "[]" "JObj []" None]
  by simp

lemma upload_multipart:
  "multipart_encoded \<lparr>req_method = m, url = u, query = q, headers = upload_headers ls (FormData fd),
     body = upload_body (FormData fd)\<rparr> fd"
  by (simp add: multipart_encoded_def upload_headers_def upload_body_def bearer_def
      split: option.splits)

lemma upload_json:
  "json_encoded \<lparr>req_method = m, url = u, query = q, headers = upload_headers ls (Plain j),
     body = upload_body (Plain j)\<rparr> j"
  by (simp add: json_encoded_def upload_headers_def upload_body_def bearer_def
      split: option.splits)

text \<open>
  C7. A create or update of experiences or itineraries with a \<^verbatim>\<open>FormData\<close> payload sends
  the form as the body and sets no content type; with any other payload \<open>j\<close> it sends
  \<^verbatim>\<open>JSON.stringify(j)\<close> under the JSON content type. The image operations, which take a
  \<^verbatim>\<open>FormData\<close> only, always do the first, and the update operations, which take no form,
  always the second. No request has both encodings.
\<close>

theorem C7_payload_encodings:
  "multipart_encoded (experiencesAPI_create ls (FormData fd)) fd
   \<and> json_encoded (experiencesAPI_create ls (Plain j)) j
   \<and> multipart_encoded (experiencesAPI_update ls i (FormData fd)) fd
   \<and> json_encoded (experiencesAPI_update ls i (Plain j)) j
   \<and> multipart_encoded (itinerariesAPI_create ls (FormData fd)) fd
   \<and> json_encoded (itinerariesAPI_create ls (Plain j)) j
   \<and> multipart_encoded (itinerariesAPI_update ls i (FormData fd)) fd
   \<and> json_encoded (itinerariesAPI_update ls i (Plain j)) j
   \<and> multipart_encoded (imagesAPI_create ls fd) fd
   \<and> multipart_encoded (imagesAPI_update ls i fd) fd
   \<and> json_encoded (updatesAPI_create ls j) j
   \<and> json_encoded (updatesAPI_update ls i j) j
   \<and> \<not> (multipart_encoded rq fd' \<and> json_encoded rq j')"
proof -
  have ex: "multipart_encoded (experiencesAPI_create ls (FormData fd)) fd"
      "json_encoded (experiencesAPI_create ls (Plain j)) j"
      "multipart_encoded (experiencesAPI_update ls i (FormData fd)) fd"
      "json_encoded (experiencesAPI_update ls i (Plain j)) j"
    by (simp_all add: experiencesAPI_create_def experiencesAPI_update_def upload_multipart
        upload_json)
  have it: "multipart_encoded (itinerariesAPI_create ls (FormData fd)) fd"
      "json_encoded (itinerariesAPI_create ls (Plain j)) j"
      "multipart_encoded (itinerariesAPI_update ls i (FormData fd)) fd"
      "json_encoded (itinerariesAPI_update ls i (Plain j)) j"
    by (simp_all add: itinerariesAPI_create_def itinerariesAPI_update_def upload_multipart
        upload_json)
  have im: "multipart_encoded (imagesAPI_create ls fd) fd"
      "multipart_encoded (imagesAPI_update ls i fd) fd"
    by (simp_all add: imagesAPI_create_def imagesAPI_update_def multipart_encoded_def bearer_def
        split: option.splits)
  have up: "json_encoded (updatesAPI_create ls j) j" "json_encoded (updatesAPI_update ls i j) j"
    by (simp_all add: updatesAPI_create_def updatesAPI_update_def json_encoded_def
        getAuthHeaders_def)
  have apart: "\<not> (multipart_encoded rq fd' \<and> json_encoded rq j')"
    by (simp add: multipart_encoded_def json_encoded_def)
  from ex it im up apart show ?thesis by simp
qed

text \<open>
  A 500 whose body is JSON without an \<^verbatim>\<open>error\<close> field fails with the message
  \<^verbatim>\<open>HTTP 500\<close>, not with the network-error message (against C8 as it is worded).
\<close>

theorem C8_unknown_shape_gives_status:
  "\<not> ok \<lparr>status = 500, json_body = Some (JObj [(''message'', JStr ''Internal Server Error'')])\<rparr>
   \<and> handleResponse \<lparr>status = 500, json_body = Some (JObj [(''message'', JStr ''Internal Server Error'')])\<rparr>
       = Inl (Error (JStr ''HTTP 500''))
   \<and> handleResponse \<lparr>status = 500, json_body = Some (JObj [(''message'', JStr ''Internal Server Error'')])\<rparr>
       \<noteq> Inl (Error (JStr ''Network error''))"
  by (simp add: handleResponse_def ok_def js_or_def show_nat.simps digit_def)

text \<open>
  C8, amended. A response whose status is not 2xx always makes the call fail. The error
  carries the string \<open>s\<close> when the body is an object with a non-empty string \<open>s\<close> in its
  \<^verbatim>\<open>error\<close> field; the message \<^verbatim>\<open>Network error\<close> when the body is not JSON; and the
  message \<^verbatim>\<open>HTTP <status>\<close> when the body is JSON (other than \<^verbatim>\<open>null\<close>) whose \<^verbatim>\<open>error\<close>
  field is missing or falsy.
\<close>

theorem C8_error_responses:
  assumes "\<not> ok r"
  shows "(\<exists>e. handleResponse r = Inl e)
    \<and> (json_body r = None \<longrightarrow> handleResponse r = Inl (Error (JStr ''Network error'')))
    \<and> (\<forall>kvs s. json_body r = Some (JObj kvs) \<and> map_of kvs ''error'' = Some (JStr s) \<and> s \<noteq> []
          \<longrightarrow> handleResponse r = Inl (Error (JStr s)))
    \<and> (\<forall>j m. json_body r = Some j \<and> get_prop j ''error'' = Inr m \<and> \<not> truthy m
          \<longrightarrow> handleResponse r = Inl (Error (JStr (''HTTP '' @ show_nat (status r)))))"
  using assms
  by (auto simp add: handleResponse_def js_or_def Let_def split: option.splits sum.splits)

theorem C8_error_responses_witness:
  "handleResponse \<lparr>status = 404, json_body = Some (JObj [(''error'', JStr ''Not found'')])\<rparr>
     = Inl (Error (JStr ''Not found''))
   \<and> handleResponse \<lparr>status = 502, json_body = None\<rparr> = Inl (Error (JStr ''Network error''))"
  using C8_error_responses [of "\<lparr>status = 404, json_body = Some (JObj [(''error'', JStr ''Not found'')])\<rparr>"]
    C8_error_responses [of "\<lparr>status = 502, json_body = None\<rparr>"]
  by (simp add: ok_def)


section \<open>Properties of the managers\<close>

lemma handleDeleteExperience_refetches:
  "em_experiences (snd (handleDeleteExperience st True (Inr v) (Inr (JObj [(''data'', JArr xs)]))))
     = JArr xs"
  by (simp add: handleDeleteExperience_def fetchExperiences_def fetchExperiences_resume_def
      fetchExperiences_begin_def js_or_def Let_def)

lemma handleDelete_itinerary_refetches:
  "itm_itineraries (snd (handleDelete_itinerary st True (Inr v) (Inr (JObj [(''data'', JArr xs)]))))
     = JArr xs"
  by (simp add: handleDelete_itinerary_def fetchItineraries_def fetchItineraries_resume_def
      fetchItineraries_begin_def js_or_def Let_def)

text \<open>
  C1 at the image delete. The cache is \<open>[{id: 1}, {id: 2}]\<close>, the delete of 1 succeeds, and
  the server's list is by then \<open>[{id: 2}, {id: 3}]\<close>. \<open>handleDelete\<close> of the ImageManager
  leaves \<open>[{id: 2}]\<close> in the cache and in the snapshot: the cached array filtered, not the
  server's list, which a refresh would have stored and which the delete of an experience
  does store on the same input.
\<close>

theorem C1_image_delete_patches_cache:
  "im_images (snd (handleDelete_image
      (ImageManager \<lparr>experiences = JArr [], itineraries = JArr [],
         images = JArr [JObj [(''id'', JStr ''1'')], JObj [(''id'', JStr ''2'')]], updates = JArr []\<rparr>)
      ''1'' True (Inr (JObj [])))) = JArr [JObj [(''id'', JStr ''2'')]]
   \<and> images (im_data (snd (handleDelete_image
      (ImageManager \<lparr>experiences = JArr [], itineraries = JArr [],
         images = JArr [JObj [(''id'', JStr ''1'')], JObj [(''id'', JStr ''2'')]], updates = JArr []\<rparr>)
      ''1'' True (Inr (JObj []))))) = JArr [JObj [(''id'', JStr ''2'')]]
   \<and> im_images (snd (fetchImages
      (ImageManager \<lparr>experiences = JArr [], itineraries = JArr [],
         images = JArr [JObj [(''id'', JStr ''1'')], JObj [(''id'', JStr ''2'')]], updates = JArr []\<rparr>)
      (Inr (JObj [(''data'', JArr [JObj [(''id'', JStr ''2'')], JObj [(''id'', JStr ''3'')]])]))))
     = JArr [JObj [(''id'', JStr ''2'')], JObj [(''id'', JStr ''3'')]]
   \<and> em_experiences (snd (handleDeleteExperience
      (ExperienceManager \<lparr>experiences = JArr [JObj [(''id'', JStr ''1'')], JObj [(''id'', JStr ''2'')]],
         itineraries = JArr [], images = JArr [], updates = JArr []\<rparr>)
      True (Inr (JObj []))
      (Inr (JObj [(''data'', JArr [JObj [(''id'', JStr ''2'')], JObj [(''id'', JStr ''3'')]])]))))
     = JArr [JObj [(''id'', JStr ''2'')], JObj [(''id'', JStr ''3'')]]"
  by (simp add: handleDelete_image_def ImageManager_def js_or_def fetchImages_def
      fetchImages_resume_def fetchImages_begin_def handleDeleteExperience_def ExperienceManager_def
      fetchExperiences_def fetchExperiences_resume_def fetchExperiences_begin_def Let_def)

text \<open>
  A refresh whose list request is rejected returns normally, and \<open>fetchImages\<close> then
  empties its cached images (against C2 as it is worded).
\<close>

theorem C2_failure_not_raised:
  "fst (fetchExperiences (ExperienceManager empty_data) (Inl TypeError)) = None
   \<and> fst (fetchImages (ImageManager (empty_data\<lparr>images := JArr [JObj [(''id'', JStr ''1'')]]\<rparr>))
        (Inl TypeError)) = None
   \<and> im_images (ImageManager (empty_data\<lparr>images := JArr [JObj [(''id'', JStr ''1'')]]\<rparr>))
       = JArr [JObj [(''id'', JStr ''1'')]]
   \<and> im_images (snd (fetchImages (ImageManager (empty_data\<lparr>images := JArr [JObj [(''id'', JStr ''1'')]]\<rparr>))
        (Inl TypeError))) = JArr []"
  by (simp add: fetchExperiences_def fetchImages_def fetchImages_resume_def fetchImages_begin_def
      fetchImages_catch_def ImageManager_def empty_data_def js_or_def)

text \<open>
  C2, amended. When the list request of a refresh is rejected, \<open>fetchExperiences\<close> and
  \<open>fetchItineraries\<close> leave the cached collection as it was, all three manager refreshes
  leave the shared snapshot as it was, and the error is caught inside the refresh: an
  error toast is shown and the refresh returns normally.
\<close>

theorem C2_failed_refresh_is_caught:
  "fst (fetchExperiences st (Inl e)) = None
   \<and> em_experiences (snd (fetchExperiences st (Inl e))) = em_experiences st
   \<and> em_data (snd (fetchExperiences st (Inl e))) = em_data st
   \<and> em_toasts (snd (fetchExperiences st (Inl e)))
       = em_toasts st @ [ToastError ''Failed to load experiences'']
   \<and> fst (fetchItineraries st' (Inl e)) = None
   \<and> itm_itineraries (snd (fetchItineraries st' (Inl e))) = itm_itineraries st'
   \<and> itm_data (snd (fetchItineraries st' (Inl e))) = itm_data st'
   \<and> itm_toasts (snd (fetchItineraries st' (Inl e)))
       = itm_toasts st' @ [ToastError ''Failed to load itineraries'']
   \<and> fst (fetchImages st'' (Inl e)) = None
   \<and> im_data (snd (fetchImages st'' (Inl e))) = im_data st''
   \<and> im_toasts (snd (fetchImages st'' (Inl e)))
       = im_toasts st'' @ [ToastError ''Failed to load images'']"
  by (simp add: fetchExperiences_def fetchExperiences_resume_def fetchExperiences_begin_def
      fetchExperiences_catch_def fetchItineraries_def fetchItineraries_resume_def
      fetchItineraries_begin_def fetchItineraries_catch_def fetchImages_def fetchImages_resume_def
      fetchImages_begin_def fetchImages_catch_def)

lemma refresh_run_calls:
  "refresh_run begin resume rq (c, out) (replicate n Call)
     = ((begin ^^ n) c, out @ replicate n rq)"
proof (induction n arbitrary: c out)
  case 0
  show ?case by simp
next
  case (Suc n)
  show ?case
    by (simp add: Suc.IH funpow_swap1 replicate_app_Cons_same)
qed

text \<open>
  Two calls of \<open>fetchExperiences\<close> before any answer leave two list requests outstanding,
  and the two calls store different values when their answers differ (against C4 as it is
  worded).
\<close>

theorem C4_two_requests_outstanding:
  "length (snd (experiences_run Map.empty (ExperienceManager empty_data) [Call, Call])) = 2
   \<and> em_experiences (fst (experiences_run Map.empty (ExperienceManager empty_data)
        [Call, Call, Settle (Inr (JArr [JStr ''a'']))])) = JArr [JStr ''a'']
   \<and> em_experiences (fst (experiences_run Map.empty (ExperienceManager empty_data)
        [Call, Call, Settle (Inr (JArr [JStr ''a''])), Settle (Inr (JArr [JStr ''b'']))]))
       = JArr [JStr ''b'']"
  by (simp add: experiences_run_def fetchExperiences_resume_def fetchExperiences_begin_def
      js_or_def Let_def)

text \<open>
  C4, amended. Refreshes are not coalesced. Every call of \<open>fetchExperiences\<close>,
  \<open>fetchItineraries\<close> or \<open>fetchImages\<close> issues a list request of its own, so \<open>n\<close> calls
  before any answer leave \<open>n\<close> requests outstanding; and each call stores the answer it
  gets, so of two concurrent calls the cache holds the first answer until the second
  arrives and the second from then on.
\<close>

theorem C4_refreshes_not_coalesced:
  "snd (experiences_run ls st (replicate n Call)) = replicate n (experiencesAPI_getAll ls None)
   \<and> snd (itineraries_run ls st' (replicate n Call)) = replicate n (itinerariesAPI_getAll ls None)
   \<and> snd (images_run ls st'' (replicate n Call)) = replicate n (imagesAPI_getAll ls None)
   \<and> em_experiences (fst (experiences_run ls st [Call, Call, Settle (Inr (JArr xs))])) = JArr xs
   \<and> em_experiences (fst (experiences_run ls st
        [Call, Call, Settle (Inr (JArr xs)), Settle (Inr (JArr ys))])) = JArr ys
   \<and> itm_itineraries (fst (itineraries_run ls st' [Call, Call, Settle (Inr (JArr xs))])) = JArr xs
   \<and> itm_itineraries (fst (itineraries_run ls st'
        [Call, Call, Settle (Inr (JArr xs)), Settle (Inr (JArr ys))])) = JArr ys
   \<and> im_images (fst (images_run ls st'' [Call, Call, Settle (Inr (JArr xs))])) = JArr xs
   \<and> im_images (fst (images_run ls st''
        [Call, Call, Settle (Inr (JArr xs)), Settle (Inr (JArr ys))])) = JArr ys"
proof -
  have calls:
    "snd (experiences_run ls st (replicate n Call)) = replicate n (experiencesAPI_getAll ls None)"
    "snd (itineraries_run ls st' (replicate n Call)) = replicate n (itinerariesAPI_getAll ls None)"
    "snd (images_run ls st'' (replicate n Call)) = replicate n (imagesAPI_getAll ls None)"
    by (simp_all add: experiences_run_def itineraries_run_def images_run_def refresh_run_calls)
  have ex:
    "em_experiences (fst (experiences_run ls st [Call, Call, Settle (Inr (JArr xs))])) = JArr xs"
    "em_experiences (fst (experiences_run ls st
        [Call, Call, Settle (Inr (JArr xs)), Settle (Inr (JArr ys))])) = JArr ys"
    by (simp_all add: experiences_run_def fetchExperiences_resume_def js_or_def Let_def)
  have it:
    "itm_itineraries (fst (itineraries_run ls st' [Call, Call, Settle (Inr (JArr xs))])) = JArr xs"
    "itm_itineraries (fst (itineraries_run ls st'
        [Call, Call, Settle (Inr (JArr xs)), Settle (Inr (JArr ys))])) = JArr ys"
    by (simp_all add: itineraries_run_def fetchItineraries_resume_def js_or_def Let_def)
  have im:
    "im_images (fst (images_run ls st'' [Call, Call, Settle (Inr (JArr xs))])) = JArr xs"
    "im_images (fst (images_run ls st''
        [Call, Call, Settle (Inr (JArr xs)), Settle (Inr (JArr ys))])) = JArr ys"
    by (simp_all add: images_run_def fetchImages_resume_def js_or_def Let_def)
  from calls ex it im show ?thesis by simp
qed

lemma fetchers_accept_both_shapes:
  "fetchExperiences st (Inr (JArr xs)) = fetchExperiences st (Inr (JObj [(''data'', JArr xs)]))"
  "fetchItineraries st' (Inr (JArr xs)) = fetchItineraries st' (Inr (JObj [(''data'', JArr xs)]))"
  "fetchImages st'' (Inr (JArr xs)) = fetchImages st'' (Inr (JObj [(''data'', JArr xs)]))"
  by (simp_all add: fetchExperiences_def fetchExperiences_resume_def fetchItineraries_def
      fetchItineraries_resume_def fetchImages_def fetchImages_resume_def js_or_def)


section \<open>Properties of the App\<close>

text \<open>What the bulk fetch does with the collections: whichever of the four list requests
  are rejected, and the others answered with \<^verbatim>\<open>{data: [...]}\<close>, it returns normally, the
  collections of the rejected requests are empty arrays and the others hold the arrays
  fetched.\<close>

lemma fetchAllData_collections:
  "fst (fetchAllData st (enveloped a) (enveloped b) (enveloped c) (enveloped d)) = None
   \<and> data (snd (fetchAllData st (enveloped a) (enveloped b) (enveloped c) (enveloped d)))
       = \<lparr>experiences = held a, itineraries = held b, images = held c, updates = held d\<rparr>"
proof -
  have one: "data_or_empty (caught (enveloped x)) = Inr (held x)" for x
    by (cases x) (simp_all add: data_or_empty_def caught_def enveloped_def held_def js_or_def)
  have all: "fetched_data (caught (enveloped a)) (caught (enveloped b)) (caught (enveloped c))
      (caught (enveloped d))
      = Inr \<lparr>experiences = held a, itineraries = held b, images = held c, updates = held d\<rparr>"
    by (simp add: fetched_data_def one)
  show ?thesis
    by (simp add: fetchAllData_def all Let_def)
qed

text \<open>
  C3 at a failed bulk fetch, for a user who is logged in. When all four list requests are
  rejected, the four collections are empty, but \<open>connectionError\<close> is false, no toast is
  shown and the App renders the dashboard, not the connection-error screen. The same
  holds in scenario B, where only the experiences request is rejected: the experiences
  are empty, the other three populated, and \<open>connectionError\<close> is false. The branch of
  \<open>fetchAllData\<close> that raises the flag is reached by no rejected request, since every
  request has a handler of its own.
\<close>

theorem C3_outage_leaves_flag_false:
  "connectionError (snd (fetchAllData ((App Map.empty)\<lparr>user := JObj [(''role'', JStr ''admin'')]\<rparr>)
        (Inl TypeError) (Inl TypeError) (Inl TypeError) (Inl TypeError))) = False
   \<and> data (snd (fetchAllData ((App Map.empty)\<lparr>user := JObj [(''role'', JStr ''admin'')]\<rparr>)
        (Inl TypeError) (Inl TypeError) (Inl TypeError) (Inl TypeError))) = empty_data
   \<and> toasts (snd (fetchAllData ((App Map.empty)\<lparr>user := JObj [(''role'', JStr ''admin'')]\<rparr>)
        (Inl TypeError) (Inl TypeError) (Inl TypeError) (Inl TypeError))) = []
   \<and> render (snd (fetchAllData ((App Map.empty)\<lparr>user := JObj [(''role'', JStr ''admin'')]\<rparr>)
        (Inl TypeError) (Inl TypeError) (Inl TypeError) (Inl TypeError))) = Dashboard
   \<and> data (snd (fetchAllData ((App Map.empty)\<lparr>user := JObj [(''role'', JStr ''admin'')]\<rparr>)
        (Inl TypeError)
        (Inr (JObj [(''data'', JArr [JObj [(''id'', JStr ''i1'')]])]))
        (Inr (JObj [(''data'', JArr [JObj [(''id'', JStr ''g1'')]])]))
        (Inr (JObj [(''data'', JArr [JObj [(''id'', JStr ''u1'')]])]))))
     = \<lparr>experiences = JArr [], itineraries = JArr [JObj [(''id'', JStr ''i1'')]],
        images = JArr [JObj [(''id'', JStr ''g1'')]], updates = JArr [JObj [(''id'', JStr ''u1'')]]\<rparr>
   \<and> connectionError (snd (fetchAllData ((App Map.empty)\<lparr>user := JObj [(''role'', JStr ''admin'')]\<rparr>)
        (Inl TypeError)
        (Inr (JObj [(''data'', JArr [JObj [(''id'', JStr ''i1'')]])]))
        (Inr (JObj [(''data'', JArr [JObj [(''id'', JStr ''g1'')]])]))
        (Inr (JObj [(''data'', JArr [JObj [(''id'', JStr ''u1'')]])])))) = False"
  by (simp add: fetchAllData_def App_def fetched_data_def data_or_empty_def caught_def js_or_def
      empty_data_def render_def Let_def)

lemma fetchAllData_null_response:
  "connectionError (snd (fetchAllData st (Inr JNull) b c d)) = True
   \<and> data (snd (fetchAllData st (Inr JNull) b c d)) = empty_data"
  by (simp add: fetchAllData_def fetched_data_def data_or_empty_def caught_def Let_def)

text \<open>
  C6 at the bulk fetch. When the four list requests answer with bare arrays,
  \<open>fetchAllData\<close> stores four empty arrays; with the same items inside \<^verbatim>\<open>{data: [...]}\<close> it
  stores the items. \<open>fetchExperiences\<close> stores the items for both shapes.
\<close>

theorem C6_bare_payload_dropped:
  "data (snd (fetchAllData (App Map.empty) (Inr (JArr [JStr ''e1''])) (Inr (JArr [JStr ''i1'']))
        (Inr (JArr [JStr ''g1''])) (Inr (JArr [JStr ''u1''])))) = empty_data
   \<and> data (snd (fetchAllData (App Map.empty) (Inr (JObj [(''data'', JArr [JStr ''e1''])]))
        (Inr (JObj [(''data'', JArr [JStr ''i1''])])) (Inr (JObj [(''data'', JArr [JStr ''g1''])]))
        (Inr (JObj [(''data'', JArr [JStr ''u1''])]))))
      = \<lparr>experiences = JArr [JStr ''e1''], itineraries = JArr [JStr ''i1''],
         images = JArr [JStr ''g1''], updates = JArr [JStr ''u1'']\<rparr>
   \<and> em_experiences (snd (fetchExperiences (ExperienceManager empty_data)
        (Inr (JArr [JStr ''e1''])))) = JArr [JStr ''e1'']
   \<and> em_experiences (snd (fetchExperiences (ExperienceManager empty_data)
        (Inr (JObj [(''data'', JArr [JStr ''e1''])])))) = JArr [JStr ''e1'']"
  by (simp add: fetchAllData_def App_def fetched_data_def data_or_empty_def caught_def js_or_def
      empty_data_def fetchExperiences_def fetchExperiences_resume_def Let_def)

text \<open>
  With a token in storage and the empty string as the stored user, which is not JSON
  either, the test \<^verbatim>\<open>token && storedUser\<close> fails: the effect takes its other branch and
  the token stays in storage under both keys (against C9 as it is worded).
\<close>

theorem C9_empty_user_keeps_session:
  "(\<lambda>s. if s = ''null'' then Some JNull else None) '''' = None
   \<and> fst (App_useEffect (\<lambda>s. if s = ''null'' then Some JNull else None)
      (App [''token'' \<mapsto> ''t1'', ''user'' \<mapsto> '''', ''authToken'' \<mapsto> ''t1''])
      (Inl TypeError) (Inl TypeError) (Inl TypeError) (Inl TypeError)) = None
   \<and> localStorage (snd (App_useEffect (\<lambda>s. if s = ''null'' then Some JNull else None)
      (App [''token'' \<mapsto> ''t1'', ''user'' \<mapsto> '''', ''authToken'' \<mapsto> ''t1''])
      (Inl TypeError) (Inl TypeError) (Inl TypeError) (Inl TypeError))) ''token'' = Some ''t1''
   \<and> localStorage (snd (App_useEffect (\<lambda>s. if s = ''null'' then Some JNull else None)
      (App [''token'' \<mapsto> ''t1'', ''user'' \<mapsto> '''', ''authToken'' \<mapsto> ''t1''])
      (Inl TypeError) (Inl TypeError) (Inl TypeError) (Inl TypeError))) ''authToken'' = Some ''t1''
   \<and> localStorage (snd (App_useEffect (\<lambda>s. if s = ''null'' then Some JNull else None)
      (App [''token'' \<mapsto> ''t1'', ''user'' \<mapsto> '''', ''authToken'' \<mapsto> ''t1''])
      (Inl TypeError) (Inl TypeError) (Inl TypeError) (Inl TypeError))) ''user'' = Some ''''"
  by (simp add: App_useEffect_def App_def)

text \<open>
  C9, amended. At startup with a token and a user record in storage, both non-empty,
  where the user record is not JSON, the effect returns normally; the keys \<^verbatim>\<open>user\<close>,
  \<^verbatim>\<open>token\<close> and \<^verbatim>\<open>authToken\<close> are gone from storage; the user is \<^verbatim>\<open>null\<close>, the snapshot
  empty, the connection-error flag false, and the App shows the login page.
\<close>

theorem C9_corrupt_user_logs_out:
  assumes "localStorage st ''token'' = Some t" and "t \<noteq> []"
    and "localStorage st ''user'' = Some u" and "u \<noteq> []"
    and "JSON_parse u = None"
  shows "fst (App_useEffect JSON_parse st a b c d) = None
    \<and> localStorage (snd (App_useEffect JSON_parse st a b c d)) ''user'' = None
    \<and> localStorage (snd (App_useEffect JSON_parse st a b c d)) ''token'' = None
    \<and> localStorage (snd (App_useEffect JSON_parse st a b c d)) ''authToken'' = None
    \<and> user (snd (App_useEffect JSON_parse st a b c d)) = JNull
    \<and> data (snd (App_useEffect JSON_parse st a b c d)) = empty_data
    \<and> connectionError (snd (App_useEffect JSON_parse st a b c d)) = False
    \<and> render (snd (App_useEffect JSON_parse st a b c d)) = LoginScreen"
  using assms
  by (simp add: App_useEffect_def handleLogout_def authAPI_logout_def setAuthToken_def render_def)

theorem C9_corrupt_user_logs_out_witness:
  "render (snd (App_useEffect (\<lambda>s. if s = ''null'' then Some JNull else None)
      (App [''token'' \<mapsto> ''t1'', ''user'' \<mapsto> ''{email:'', ''authToken'' \<mapsto> ''t1''])
      (Inl TypeError) (Inl TypeError) (Inl TypeError) (Inl TypeError))) = LoginScreen
   \<and> localStorage (snd (App_useEffect (\<lambda>s. if s = ''null'' then Some JNull else None)
      (App [''token'' \<mapsto> ''t1'', ''user'' \<mapsto> ''{email:'', ''authToken'' \<mapsto> ''t1''])
      (Inl TypeError) (Inl TypeError) (Inl TypeError) (Inl TypeError))) ''token'' = None"
  using C9_corrupt_user_logs_out [of
      "App [''token'' \<mapsto> ''t1'', ''user'' \<mapsto> ''{email:'', ''authToken'' \<mapsto> ''t1'']" "''t1''" "''{email:''"
      "\<lambda>s. if s = ''null'' then Some JNull else None"
      "Inl TypeError" "Inl TypeError" "Inl TypeError" "Inl TypeError"]
  by (simp add: App_def)

end
